theory Spec2Isabelle
  imports Main "HOL-Library.AList"
begin

section \<open>JavaScript values\<close>

text \<open>
  Payloads, callbacks and identifiers arrive over the event channel as untyped JavaScript
  values. Numbers are split into the integer-valued ones (\<open>JInt\<close>), the other non-NaN
  numbers (\<open>JNonInt\<close>) and \<open>JNaN\<close>: the handlers only classify numbers and use them
  as map keys, they never compute with them. An object is its list of own properties, a
  function is an opaque handle.
\<close>

datatype jsval =
    JUndefined
  | JNull
  | JBool bool
  | JInt int
  | JNonInt
  | JNaN
  | JStr string
  | JArr "jsval list"
  | JObj "(string \<times> jsval) list"
  | JFun nat

datatype js_error = TypeError | ReferenceError | Rejection jsval

text \<open>The outcome of an awaited promise.\<close>

datatype 'a settled = Resolved 'a | RejectedWith jsval

text \<open>\<open>!v\<close> is \<open>\<not> truthy v\<close>.\<close>

fun truthy :: "jsval \<Rightarrow> bool" where
  "truthy JUndefined = False"
| "truthy JNull = False"
| "truthy (JBool b) = b"
| "truthy (JInt n) = (n \<noteq> 0)"
| "truthy JNonInt = True"
| "truthy JNaN = False"
| "truthy (JStr s) = (s \<noteq> [])"
| "truthy (JArr xs) = True"
| "truthy (JObj fs) = True"
| "truthy (JFun f) = True"

text \<open>
  Property read \<open>v.k\<close>, also the read done by a destructuring \<open>let {k} = v\<close>. Reading a
  property of \<open>undefined\<close> or \<open>null\<close> throws a TypeError. The handlers read only the
  names \<open>title\<close>, \<open>description\<close>, \<open>debateId\<close>, \<open>answers\<close>, \<open>isOpenQuestion\<close>,
  \<open>uuid\<close> and \<open>suggestionId\<close>, which no primitive, array or function has, so those
  reads give \<open>undefined\<close>.
\<close>

fun getProp :: "jsval \<Rightarrow> string \<Rightarrow> js_error + jsval" where
  "getProp JUndefined k = Inl TypeError"
| "getProp JNull k = Inl TypeError"
| "getProp (JObj fs) k = Inr (case map_of fs k of None \<Rightarrow> JUndefined | Some v \<Rightarrow> v)"
| "getProp v k = Inr JUndefined"

text \<open>
  Converting a value to a string, as a template literal does with each value it
  interpolates. For an object the conversion calls its \<open>toString\<close> and, when that is not
  callable, its \<open>valueOf\<close>, and throws a TypeError when neither gives a primitive. A
  value decoded from a message has no function among its properties, so an object with an own
  property \<open>toString\<close> cannot be converted (the inherited \<open>valueOf\<close> gives the object
  back); without one the inherited \<open>toString\<close> answers. An array converts its elements.
\<close>

fun toStringThrows :: "jsval \<Rightarrow> bool" where
  "toStringThrows (JObj fs) = (map_of fs ''toString'' \<noteq> None)"
| "toStringThrows (JArr xs) = list_ex toStringThrows xs"
| "toStringThrows v = False"

section \<open>Input-shape helpers and configuration\<close>

text \<open>
  Modelled from the spec: the module \<open>utils/typecheck.js\<close> is not part of the sources at
  hand. Its helpers are taken as the spec describes the validation rules: a callable reply,
  an integer identifier, a string bounded by an optional maximum length, a boolean flag, an
  array whose elements all pass a check and whose length is bounded by an optional maximum.
\<close>

definition isFunction :: "jsval \<Rightarrow> bool" where
  "isFunction v = (case v of JFun f \<Rightarrow> True | _ \<Rightarrow> False)"

definition isInteger :: "jsval \<Rightarrow> bool" where
  "isInteger v = (case v of JInt n \<Rightarrow> True | _ \<Rightarrow> False)"

definition isBoolean :: "jsval \<Rightarrow> bool" where
  "isBoolean v = (case v of JBool b \<Rightarrow> True | _ \<Rightarrow> False)"

definition isString :: "jsval \<Rightarrow> nat option \<Rightarrow> bool" where
  "isString v maxLength =
     (case v of
        JStr s \<Rightarrow> (case maxLength of None \<Rightarrow> True | Some m \<Rightarrow> length s \<le> m)
      | _ \<Rightarrow> False)"

definition isArrayOf :: "jsval \<Rightarrow> (jsval \<Rightarrow> bool) \<Rightarrow> nat option \<Rightarrow> bool" where
  "isArrayOf v typeFunc maxLength =
     (case v of
        JArr xs \<Rightarrow>
          (case maxLength of None \<Rightarrow> True | Some m \<Rightarrow> length xs \<le> m) \<and> list_all typeFunc xs
      | _ \<Rightarrow> False)"

text \<open>
  The constants of \<open>conf/config.js\<close> that the handlers read (\<open>DebateConfig\<close> and
  \<open>ErrorMessage\<close>); their values are parameters.
\<close>

record config =
  MAX_TITLE_LENGTH :: nat
  MAX_DESCRIPTION_LENGTH :: nat
  MAX_CLOSED_ANSWERS :: nat
  LOGIN_PASSWORD_INVALID :: string

section \<open>Registries\<close>

text \<open>
  A socket as the handlers see it: its id, the fields the login middleware writes
  (\<open>username\<close>, \<open>userid\<close>) and the two handshake query fields it reads.
\<close>

record socket =
  sid :: nat
  username :: jsval
  userid :: jsval
  query_username :: jsval
  query_password :: jsval

text \<open>
  The value stored per user in \<open>this.users\<close>: \<open>{socket, activeDebates}\<close>. The user's
  \<open>activeDebates\<close> is a JavaScript \<open>Set\<close>, kept here as the list of its elements in
  insertion order, under the name \<open>trackedDebates\<close> (the class field of the same name is
  the registry below).
\<close>

record user_entry =
  socket :: socket
  trackedDebates :: "int list"

text \<open>
  What this file reads of a \<open>Debate\<close>: its identifier and the two texts. Questions and
  suggestions stay with the debate entity.
\<close>

record debate =
  debateID :: int
  title :: jsval
  description :: jsval

text \<open>
  The two instance maps of \<open>PrivilegedNamespace\<close>. A JavaScript \<open>Map\<close> keeps insertion
  order and one value per key, so each is an association list handled with \<open>map_of\<close>,
  \<open>AList.update\<close> and \<open>AList.delete\<close>.
\<close>

record state =
  activeDebates :: "(int \<times> debate) list"
  users :: "(jsval \<times> user_entry) list"

definition set_add :: "int \<Rightarrow> int list \<Rightarrow> int list" where
  "set_add x xs = (if x \<in> set xs then xs else xs @ [x])"

definition set_delete :: "int \<Rightarrow> int list \<Rightarrow> int list" where
  "set_delete x xs = removeAll x xs"

definition initializeUsers :: "state \<Rightarrow> socket \<Rightarrow> state" where
  "initializeUsers s sock =
     (case map_of (users s) (username sock) of
        Some u \<Rightarrow> s\<lparr>users := AList.update (username sock) (u\<lparr>socket := sock\<rparr>) (users s)\<rparr>
      | None \<Rightarrow>
          s\<lparr>users := AList.update (username sock)
                        \<lparr>socket = sock, trackedDebates = []\<rparr> (users s)\<rparr>)"

text \<open>
  \<open>this.activeDebates.get(id)\<close> and \<open>this.activeDebates.delete(id)\<close> for an arbitrary
  value \<open>id\<close>: the keys of the map are the integer identifiers of the debates, so only an
  integer-valued number can be one of them.
\<close>

definition getActiveDebate :: "state \<Rightarrow> jsval \<Rightarrow> debate option" where
  "getActiveDebate s v = (case v of JInt n \<Rightarrow> map_of (activeDebates s) n | _ \<Rightarrow> None)"

definition deleteActiveDebate :: "jsval \<Rightarrow> (int \<times> debate) list \<Rightarrow> (int \<times> debate) list" where
  "deleteActiveDebate v reg = (case v of JInt n \<Rightarrow> AList.delete n reg | _ \<Rightarrow> reg)"

text \<open>The tracked identifiers of a user, if the user has an entry.\<close>

definition tracked :: "state \<Rightarrow> jsval \<Rightarrow> int list option" where
  "tracked s name = map_option trackedDebates (map_of (users s) name)"

section \<open>Handler outcomes\<close>

text \<open>
  The calls a handler makes on its collaborators: the persistence manager, the debate entity
  and its question and suggestion collections. They are recorded in the order they are
  made; what a collaborator answers is an argument of the handler, and a collaborator call
  is taken to return. Logger calls only write to the log and are left out, but for what
  building the message can do to the handler: reading an unbound identifier throws, and so
  does converting a value that has no string form. The values interpolated are the
  socket's username and id (strings of the handshake), identifiers that have passed
  \<open>isInteger\<close>, the debate found in the registry and the error of the hash comparison
  (objects of their own classes, taken to convert), and three values that need not
  convert: in \<open>closeDebate\<close> the identifier as the client sent it and the value
  \<open>saveEndDiscussion\<close> was fulfilled with, in \<open>newDebate\<close> the value
  \<open>saveDiscussion\<close> was rejected with. The level logged for the outcome of
  \<open>saveDiscussion\<close> is recorded, being the only use of that outcome.
\<close>

datatype log_level = LogInfo | LogWarn | LogError

datatype effect =
    SaveDiscussion debate
  | SaveDiscussionLogged log_level
  | DebateStartSocketHandling int
  | SaveEndDiscussion jsval
  | GetDiscussionsAdmin jsval
  | FormatQuestions int
  | GetApprovedSuggestions int
  | NewQuestion int jsval jsval jsval
  | SendNewQuestion int jsval
  | ApproveSuggestion int jsval
  | RejectSuggestion int jsval

text \<open>
  What one run of a handler did: the registries afterwards, the values passed to the reply
  callback (one entry per invocation), the collaborator calls, and the error it threw, if
  any (for an \<open>async\<close> handler: the error its promise was rejected with).
\<close>

record outcome =
  st :: state
  replies :: "jsval list"
  effects :: "effect list"
  thrown :: "js_error option"

definition silent :: "state \<Rightarrow> outcome" where
  "silent s = \<lparr>st = s, replies = [], effects = [], thrown = None\<rparr>"

definition reply :: "state \<Rightarrow> jsval \<Rightarrow> outcome" where
  "reply s v = \<lparr>st = s, replies = [v], effects = [], thrown = None\<rparr>"

definition throw :: "state \<Rightarrow> js_error \<Rightarrow> outcome" where
  "throw s e = \<lparr>st = s, replies = [], effects = [], thrown = Some e\<rparr>"

text \<open>
  An \<open>async\<close> handler runs synchronously up to its \<open>await\<close>; there it is suspended and
  other handlers may run. \<open>Suspended out k\<close> is the handler at its \<open>await\<close>: \<open>out\<close>
  is what it has done so far (its state is what the other handlers see) and \<open>k\<close> the local
  values it keeps. None of the handlers reads or writes the registries after its
  \<open>await\<close>, so resuming only extends \<open>out\<close>.
\<close>

datatype 'k phase = Finished outcome | Suspended outcome 'k

text \<open>
  The identifiers a handler body can read: the imports and the class name of the module,
  and the handler's own parameters and local bindings. Reading any other identifier throws
  a ReferenceError.
\<close>

definition module_scope :: "string list" where
  "module_scope = [''logger'', ''SocketConfig'', ''DebateConfig'', ''CustomNamespace'',
     ''Debate'', ''dbManager'', ''TypeCheck'', ''PrivilegedNamespace'']"

definition readIdentifier :: "string list \<Rightarrow> string \<Rightarrow> js_error option" where
  "readIdentifier scope x = (if x \<in> set scope then None else Some ReferenceError)"

section \<open>The event handlers\<close>

subsection \<open>getDebates\<close>

definition debateSummary :: "debate \<Rightarrow> jsval" where
  "debateSummary d = JObj [(''debateId'', JInt (debateID d)), (''title'', title d),
     (''description'', description d), (''closed'', JBool False)]"

text \<open>A discussion record of the persistence manager.\<close>

record discussion =
  d_id :: jsval
  d_title :: jsval
  d_description :: jsval
  finishTime :: jsval

text \<open>\<open>discussion.finishTime != null\<close> is the loose comparison: false for \<open>null\<close> and \<open>undefined\<close>.\<close>

definition discussionSummary :: "discussion \<Rightarrow> jsval" where
  "discussionSummary x = JObj [(''debateId'', d_id x), (''title'', d_title x),
     (''description'', d_description x),
     (''closed'', JBool (finishTime x \<noteq> JNull \<and> finishTime x \<noteq> JUndefined))]"

text \<open>
  The first loop of \<open>getDebates\<close>, over the caller's tracked identifiers: \<open>d\<close> is
  \<open>undefined\<close> for an identifier that is not in the registry, and \<open>d.debateID\<close> then throws.
\<close>

fun trackedSummaries :: "(int \<times> debate) list \<Rightarrow> int list \<Rightarrow> jsval list \<Rightarrow> js_error + jsval list" where
  "trackedSummaries reg [] debates = Inr debates"
| "trackedSummaries reg (debateId # rest) debates =
     (case map_of reg debateId of
        None \<Rightarrow> Inl TypeError
      | Some d \<Rightarrow> trackedSummaries reg rest (debates @ [debateSummary d]))"

definition getDebates_sync :: "state \<Rightarrow> socket \<Rightarrow> jsval \<Rightarrow> (jsval list) phase" where
  "getDebates_sync s sock callback =
     (if \<not> isFunction callback then Finished (silent s)
      else case map_of (users s) (username sock) of
        None \<Rightarrow> Finished (throw s TypeError)
      | Some u \<Rightarrow>
          (case trackedSummaries (activeDebates s) (trackedDebates u) [] of
             Inl e \<Rightarrow> Finished (throw s e)
           | Inr debates \<Rightarrow>
               Suspended \<lparr>st = s, replies = [], effects = [GetDiscussionsAdmin (username sock)],
                          thrown = None\<rparr> debates))"

definition getDebates_resume :: "outcome \<Rightarrow> jsval list \<Rightarrow> discussion list settled \<Rightarrow> outcome" where
  "getDebates_resume out debates discussions =
     (case discussions of
        RejectedWith e \<Rightarrow> out\<lparr>thrown := Some (Rejection e)\<rparr>
      | Resolved ds \<Rightarrow> out\<lparr>replies := replies out @ [JArr (debates @ map discussionSummary ds)]\<rparr>)"

definition getDebates :: "state \<Rightarrow> socket \<Rightarrow> jsval \<Rightarrow> discussion list settled \<Rightarrow> outcome" where
  "getDebates s sock callback discussions =
     (case getDebates_sync s sock callback of
        Finished out \<Rightarrow> out
      | Suspended out debates \<Rightarrow> getDebates_resume out debates discussions)"

subsection \<open>getDebateQuestions and getDebateSuggestions\<close>

text \<open>
  \<open>formatted\<close> is what formatting the debate's questions gives, \<open>approved\<close> what its
  suggestion collection returns as approved.
\<close>

definition getDebateQuestions :: "state \<Rightarrow> socket \<Rightarrow> jsval \<Rightarrow> jsval \<Rightarrow> jsval list \<Rightarrow> outcome" where
  "getDebateQuestions s sock debateId callback formatted =
     (if \<not> isFunction callback then silent s
      else if \<not> isInteger debateId then reply s (JInt (- 1))
      else case getActiveDebate s debateId of
        None \<Rightarrow> reply s (JInt (- 1))
      | Some d \<Rightarrow> \<lparr>st = s, replies = [JArr formatted], effects = [FormatQuestions (debateID d)],
                    thrown = None\<rparr>)"

definition getDebateSuggestions :: "state \<Rightarrow> socket \<Rightarrow> jsval \<Rightarrow> jsval \<Rightarrow> jsval \<Rightarrow> outcome" where
  "getDebateSuggestions s sock debateId callback approved =
     (if \<not> isFunction callback then silent s
      else if \<not> isInteger debateId then reply s (JInt (- 1))
      else case getActiveDebate s debateId of
        None \<Rightarrow> reply s (JInt (- 1))
      | Some d \<Rightarrow> \<lparr>st = s, replies = [approved], effects = [GetApprovedSuggestions (debateID d)],
                    thrown = None\<rparr>)"

subsection \<open>newDebate\<close>

text \<open>
  \<open>newId\<close> is the identifier the \<open>Debate\<close> constructor gives the new debate (an
  integer, as the spec has it); \<open>saved\<close> is what \<open>saveDiscussion\<close> gives. The
  registry is written first, then the caller's entry is read (\<open>this.users.get\<close> gives
  \<open>undefined\<close> for a user without an entry) and its set extended, then the handler awaits
  \<open>saveDiscussion\<close>.
\<close>

definition newDebate_sync :: "config \<Rightarrow> state \<Rightarrow> socket \<Rightarrow> jsval \<Rightarrow> jsval \<Rightarrow> int \<Rightarrow> debate phase" where
  "newDebate_sync cfg s sock newDebateObj callback newId =
     (if \<not> isFunction callback then Finished (silent s)
      else case getProp newDebateObj ''title'' of
        Inl e \<Rightarrow> Finished (throw s e)
      | Inr t \<Rightarrow>
     (case getProp newDebateObj ''description'' of
        Inl e \<Rightarrow> Finished (throw s e)
      | Inr d \<Rightarrow>
          if \<not> (isString t (Some (MAX_TITLE_LENGTH cfg)) \<and>
                 isString d (Some (MAX_DESCRIPTION_LENGTH cfg)))
          then Finished (reply s (JInt (- 1)))
          else
            let dbt = \<lparr>debateID = newId, title = t, description = d\<rparr>;
                s1 = s\<lparr>activeDebates := AList.update (debateID dbt) dbt (activeDebates s)\<rparr>
            in case map_of (users s1) (username sock) of
                 None \<Rightarrow> Finished (throw s1 TypeError)
               | Some u \<Rightarrow>
                   Suspended
                     \<lparr>st = s1\<lparr>users := AList.update (username sock)
                            (u\<lparr>trackedDebates := set_add (debateID dbt) (trackedDebates u)\<rparr>)
                            (users s1)\<rparr>,
                      replies = [], effects = [SaveDiscussion dbt], thrown = None\<rparr> dbt))"

text \<open>
  The promise awaited is \<open>saveDiscussion(debate).then(...).catch(...)\<close>. The \<open>then\<close>
  branch logs a fixed message. The \<open>catch\<close> branch logs a message that interpolates the
  rejection value: when that value converts, the awaited promise is fulfilled and the handler
  goes on to \<open>startSocketHandling\<close> and the reply; when it does not, the \<open>catch\<close>
  branch throws a TypeError, the awaited promise is rejected with it and the handler ends
  there.
\<close>

definition saveDiscussionLevel :: "jsval settled \<Rightarrow> log_level" where
  "saveDiscussionLevel saved =
     (case saved of
        Resolved res \<Rightarrow> if res = JBool True then LogInfo else LogWarn
      | RejectedWith res \<Rightarrow> LogError)"

definition catchThrows :: "jsval settled \<Rightarrow> bool" where
  "catchThrows saved =
     (case saved of
        Resolved res \<Rightarrow> False
      | RejectedWith res \<Rightarrow> toStringThrows res)"

definition newDebate_resume :: "outcome \<Rightarrow> debate \<Rightarrow> jsval settled \<Rightarrow> outcome" where
  "newDebate_resume out dbt saved =
     (if catchThrows saved then out\<lparr>thrown := Some TypeError\<rparr>
      else
        out\<lparr>replies := replies out @ [JInt (debateID dbt)],
            effects := effects out @
              [SaveDiscussionLogged (saveDiscussionLevel saved),
               DebateStartSocketHandling (debateID dbt)]\<rparr>)"

definition newDebate :: "config \<Rightarrow> state \<Rightarrow> socket \<Rightarrow> jsval \<Rightarrow> jsval \<Rightarrow> int \<Rightarrow> jsval settled \<Rightarrow> outcome" where
  "newDebate cfg s sock newDebateObj callback newId saved =
     (case newDebate_sync cfg s sock newDebateObj callback newId of
        Finished out \<Rightarrow> out
      | Suspended out dbt \<Rightarrow> newDebate_resume out dbt saved)"

subsection \<open>closeDebate\<close>

text \<open>
  This handler tests its callback with \<open>instanceof Function\<close> and looks the identifier
  up as it is given, without a type check. When no debate is found it replies \<open>false\<close>
  and then logs a message that interpolates the identifier. \<open>update\<close> is what the awaited
  \<open>saveEndDiscussion\<close> gives; after the \<open>await\<close> the handler logs a message that
  interpolates \<open>update\<close> and then calls \<open>callback(update)\<close>.
\<close>

definition closeDebate_sync :: "state \<Rightarrow> socket \<Rightarrow> jsval \<Rightarrow> jsval \<Rightarrow> unit phase" where
  "closeDebate_sync s sock aIdDiscussion callback =
     (if \<not> isFunction callback then Finished (silent s)
      else case getActiveDebate s aIdDiscussion of
        None \<Rightarrow>
          Finished (if toStringThrows aIdDiscussion
                    then \<lparr>st = s, replies = [JBool False], effects = [], thrown = Some TypeError\<rparr>
                    else reply s (JBool False))
      | Some dbt \<Rightarrow>
          let s1 = s\<lparr>activeDebates := deleteActiveDebate aIdDiscussion (activeDebates s)\<rparr>
          in case map_of (users s1) (username sock) of
               None \<Rightarrow> Finished (throw s1 TypeError)
             | Some u \<Rightarrow>
                 Suspended
                   \<lparr>st = s1\<lparr>users := AList.update (username sock)
                          (u\<lparr>trackedDebates := set_delete (debateID dbt) (trackedDebates u)\<rparr>)
                          (users s1)\<rparr>,
                    replies = [], effects = [SaveEndDiscussion aIdDiscussion], thrown = None\<rparr> ())"

definition closeDebate_resume :: "outcome \<Rightarrow> jsval settled \<Rightarrow> outcome" where
  "closeDebate_resume out update =
     (case update of
        RejectedWith e \<Rightarrow> out\<lparr>thrown := Some (Rejection e)\<rparr>
      | Resolved v \<Rightarrow>
          if toStringThrows v then out\<lparr>thrown := Some TypeError\<rparr>
          else out\<lparr>replies := replies out @ [v]\<rparr>)"

definition closeDebate :: "state \<Rightarrow> socket \<Rightarrow> jsval \<Rightarrow> jsval \<Rightarrow> jsval settled \<Rightarrow> outcome" where
  "closeDebate s sock aIdDiscussion callback update =
     (case closeDebate_sync s sock aIdDiscussion callback of
        Finished out \<Rightarrow> out
      | Suspended out k \<Rightarrow> closeDebate_resume out update)"

subsection \<open>newQuestion\<close>

text \<open>
  \<open>qid\<close> is the identifier the debate's \<open>Question\<close> constructor gives the new
  question, \<open>sent\<close> the outcome of the awaited \<open>sendNewQuestion\<close>. The \<open>NewQuestion\<close>
  effect carries the three arguments the constructor is called with.
\<close>

definition newQuestion_sync :: "config \<Rightarrow> state \<Rightarrow> socket \<Rightarrow> jsval \<Rightarrow> jsval \<Rightarrow> jsval \<Rightarrow> unit phase" where
  "newQuestion_sync cfg s sock newQuestionObj callback qid =
     (if \<not> isFunction callback then Finished (silent s)
      else case getProp newQuestionObj ''debateId'' of
        Inl e \<Rightarrow> Finished (throw s e)
      | Inr debateId \<Rightarrow>
     (case getProp newQuestionObj ''title'' of
        Inl e \<Rightarrow> Finished (throw s e)
      | Inr t \<Rightarrow>
     (case getProp newQuestionObj ''answers'' of
        Inl e \<Rightarrow> Finished (throw s e)
      | Inr answers0 \<Rightarrow>
     (case getProp newQuestionObj ''isOpenQuestion'' of
        Inl e \<Rightarrow> Finished (throw s e)
      | Inr isOpenQuestion0 \<Rightarrow>
          let isOpenQuestion = (if \<not> isBoolean isOpenQuestion0 then JBool False else isOpenQuestion0);
              answers = (if \<not> isBoolean isOpenQuestion0 then answers0
                         else if isOpenQuestion0 = JBool True then JArr [] else answers0)
          in
          if \<not> (isInteger debateId \<and> isString t None \<and>
                 isArrayOf answers (\<lambda>v. isString v None) (Some (MAX_CLOSED_ANSWERS cfg)))
          then Finished (reply s (JInt (- 1)))
          else case getActiveDebate s debateId of
            None \<Rightarrow> Finished (reply s (JInt (- 1)))
          | Some dbt \<Rightarrow>
              Suspended
                \<lparr>st = s, replies = [],
                 effects = [NewQuestion (debateID dbt) t answers isOpenQuestion,
                            SendNewQuestion (debateID dbt) qid],
                 thrown = None\<rparr> ()))))"

definition newQuestion_resume :: "outcome \<Rightarrow> jsval \<Rightarrow> jsval settled \<Rightarrow> outcome" where
  "newQuestion_resume out qid sent =
     (case sent of
        RejectedWith e \<Rightarrow> out\<lparr>thrown := Some (Rejection e)\<rparr>
      | Resolved v \<Rightarrow> out\<lparr>replies := replies out @ [qid]\<rparr>)"

definition newQuestion :: "config \<Rightarrow> state \<Rightarrow> socket \<Rightarrow> jsval \<Rightarrow> jsval \<Rightarrow> jsval \<Rightarrow> jsval settled \<Rightarrow> outcome" where
  "newQuestion cfg s sock newQuestionObj callback qid sent =
     (case newQuestion_sync cfg s sock newQuestionObj callback qid of
        Finished out \<Rightarrow> out
      | Suspended out k \<Rightarrow> newQuestion_resume out qid sent)"

subsection \<open>banUser\<close>

text \<open>
  The bindings of the handler body: the closure's \<open>socket\<close>, the two parameters, the two
  destructured names and \<open>debate\<close>. The last statements of the handler are the log call,
  whose message interpolates \<open>socket.username\<close> and \<open>suggestionId\<close>, and
  \<open>callback(true)\<close>.
\<close>

definition banUser_scope :: "string list" where
  "banUser_scope = [''socket'', ''banObj'', ''callback'', ''uuid'', ''debateId'', ''debate'']
     @ module_scope"

definition banUser :: "state \<Rightarrow> socket \<Rightarrow> jsval \<Rightarrow> jsval \<Rightarrow> outcome" where
  "banUser s sock banObj callback =
     (if \<not> isFunction callback then silent s
      else case getProp banObj ''uuid'' of
        Inl e \<Rightarrow> throw s e
      | Inr uuid \<Rightarrow>
     (case getProp banObj ''debateId'' of
        Inl e \<Rightarrow> throw s e
      | Inr debateId \<Rightarrow>
          if \<not> (isString uuid None \<and> isInteger debateId) then reply s (JBool False)
          else case getActiveDebate s debateId of
            None \<Rightarrow> reply s (JBool False)
          | Some dbt \<Rightarrow>
              (case readIdentifier banUser_scope ''suggestionId'' of
                 Some e \<Rightarrow> throw s e
               | None \<Rightarrow> reply s (JBool True))))"

subsection \<open>approveQuestion and rejectQuestion\<close>

text \<open>
  \<open>res\<close> is what the debate's suggestion collection returns for the approval or the
  rejection. Here \<open>suggestionId\<close> is bound by the destructuring.
\<close>

definition approveQuestion_scope :: "string list" where
  "approveQuestion_scope =
     [''socket'', ''approveObj'', ''callback'', ''suggestionId'', ''debateId'', ''debate'', ''res'']
     @ module_scope"

definition approveQuestion :: "state \<Rightarrow> socket \<Rightarrow> jsval \<Rightarrow> jsval \<Rightarrow> jsval \<Rightarrow> outcome" where
  "approveQuestion s sock approveObj callback res =
     (if \<not> isFunction callback then silent s
      else case getProp approveObj ''suggestionId'' of
        Inl e \<Rightarrow> throw s e
      | Inr suggestionId \<Rightarrow>
     (case getProp approveObj ''debateId'' of
        Inl e \<Rightarrow> throw s e
      | Inr debateId \<Rightarrow>
          if \<not> (isInteger suggestionId \<and> isInteger debateId) then reply s (JBool False)
          else case getActiveDebate s debateId of
            None \<Rightarrow> reply s (JBool False)
          | Some dbt \<Rightarrow>
              if res = JBool False
              then \<lparr>st = s, replies = [JBool False],
                    effects = [ApproveSuggestion (debateID dbt) suggestionId], thrown = None\<rparr>
              else
                (case readIdentifier approveQuestion_scope ''suggestionId'' of
                   Some e \<Rightarrow> \<lparr>st = s, replies = [],
                       effects = [ApproveSuggestion (debateID dbt) suggestionId], thrown = Some e\<rparr>
                 | None \<Rightarrow> \<lparr>st = s, replies = [JBool True],
                       effects = [ApproveSuggestion (debateID dbt) suggestionId], thrown = None\<rparr>)))"

definition rejectQuestion_scope :: "string list" where
  "rejectQuestion_scope =
     [''socket'', ''rejectObj'', ''callback'', ''suggestionId'', ''debateId'', ''debate'', ''res'']
     @ module_scope"

definition rejectQuestion :: "state \<Rightarrow> socket \<Rightarrow> jsval \<Rightarrow> jsval \<Rightarrow> jsval \<Rightarrow> outcome" where
  "rejectQuestion s sock rejectObj callback res =
     (if \<not> isFunction callback then silent s
      else case getProp rejectObj ''suggestionId'' of
        Inl e \<Rightarrow> throw s e
      | Inr suggestionId \<Rightarrow>
     (case getProp rejectObj ''debateId'' of
        Inl e \<Rightarrow> throw s e
      | Inr debateId \<Rightarrow>
          if \<not> (isInteger suggestionId \<and> isInteger debateId) then reply s (JBool False)
          else case getActiveDebate s debateId of
            None \<Rightarrow> reply s (JBool False)
          | Some dbt \<Rightarrow>
              if res = JBool False
              then \<lparr>st = s, replies = [JBool False],
                    effects = [RejectSuggestion (debateID dbt) suggestionId], thrown = None\<rparr>
              else
                (case readIdentifier rejectQuestion_scope ''suggestionId'' of
                   Some e \<Rightarrow> \<lparr>st = s, replies = [],
                       effects = [RejectSuggestion (debateID dbt) suggestionId], thrown = Some e\<rparr>
                 | None \<Rightarrow> \<lparr>st = s, replies = [JBool True],
                       effects = [RejectSuggestion (debateID dbt) suggestionId], thrown = None\<rparr>)))"

section \<open>The login middleware and the connection listener\<close>

text \<open>
  The calls the middleware makes on the credential verifier: the stored-hash lookup, the
  hash comparison and the lookup of the numeric id. What they answer is given by the three
  function arguments of \<open>middlewareFunction\<close>.
\<close>

datatype verifier_call = GetAdminPassword jsval | BcryptCompare jsval jsval | GetAdminId jsval

datatype bcrypt_result = BcryptErr jsval | BcryptRes jsval

datatype next_arg = NextOk | NextError string

text \<open>
  What one run of the middleware did: the socket as it left it, the verifier calls, the
  argument of its call of \<open>next\<close> (\<open>None\<close> when it never called it), and the error its
  promise was rejected with, if any.
\<close>

record gate_outcome =
  g_socket :: socket
  g_calls :: "verifier_call list"
  g_next :: "next_arg option"
  g_thrown :: "js_error option"

definition middlewareFunction ::
  "config \<Rightarrow> (jsval \<Rightarrow> jsval settled) \<Rightarrow> (jsval \<Rightarrow> jsval \<Rightarrow> bcrypt_result) \<Rightarrow>
   (jsval \<Rightarrow> jsval settled) \<Rightarrow> socket \<Rightarrow> gate_outcome" where
  "middlewareFunction cfg getAdminPassword compare getAdminId sock =
     (let password = query_password sock in
      if \<not> truthy password
      then \<lparr>g_socket = sock, g_calls = [], g_next = Some (NextError ''No password specified''),
            g_thrown = None\<rparr>
      else
        let uname = query_username sock;
            sock1 = sock\<lparr>username := uname, query_password := JNull\<rparr>
        in case getAdminPassword uname of
          RejectedWith e \<Rightarrow>
            \<lparr>g_socket = sock1, g_calls = [GetAdminPassword uname], g_next = None,
             g_thrown = Some (Rejection e)\<rparr>
        | Resolved adminHash \<Rightarrow>
            if \<not> truthy adminHash
            then \<lparr>g_socket = sock1, g_calls = [GetAdminPassword uname],
                  g_next = Some (NextError ''Invalid username''), g_thrown = None\<rparr>
            else
              let res = (case compare password adminHash of
                           BcryptErr err \<Rightarrow> JBool False
                         | BcryptRes r \<Rightarrow> r)
              in if res = JBool True
                 then (case getAdminId uname of
                         RejectedWith e \<Rightarrow>
                           \<lparr>g_socket = sock1,
                            g_calls = [GetAdminPassword uname, BcryptCompare password adminHash,
                                       GetAdminId uname],
                            g_next = None, g_thrown = Some (Rejection e)\<rparr>
                       | Resolved aid \<Rightarrow>
                           \<lparr>g_socket = sock1\<lparr>userid := aid\<rparr>,
                            g_calls = [GetAdminPassword uname, BcryptCompare password adminHash,
                                       GetAdminId uname],
                            g_next = Some NextOk, g_thrown = None\<rparr>)
                 else \<lparr>g_socket = sock1,
                       g_calls = [GetAdminPassword uname, BcryptCompare password adminHash],
                       g_next = Some (NextError (LOGIN_PASSWORD_INVALID cfg)), g_thrown = None\<rparr>)"

text \<open>
  The listener that \<open>startSocketHandling\<close> installs for the \<open>connection\<close> event: it
  initializes the user and registers one handler per event, in this order.
\<close>

definition startSocketHandling_onConnection :: "state \<Rightarrow> socket \<Rightarrow> state \<times> string list" where
  "startSocketHandling_onConnection s sock =
     (initializeUsers s sock,
      [''getDebates'', ''getDebateQuestions'', ''getDebateSuggestions'', ''newDebate'',
       ''closeDebate'', ''newQuestion'', ''banUser'', ''approveQuestion'', ''rejectQuestion''])"

text \<open>
  Modelled from the spec: the code that installs the login middleware on the privileged
  namespace is not part of the sources at hand. As the spec describes the connection gate,
  the middleware runs once per incoming connection, and the connection listener runs only
  when the middleware has called \<open>next\<close> without an error; otherwise the connection is
  refused and nothing else runs for it. The result is the registries, the events that have
  a handler on the socket, and the verifier calls made.
\<close>

definition connectionGate ::
  "config \<Rightarrow> (jsval \<Rightarrow> jsval settled) \<Rightarrow> (jsval \<Rightarrow> jsval \<Rightarrow> bcrypt_result) \<Rightarrow>
   (jsval \<Rightarrow> jsval settled) \<Rightarrow> state \<Rightarrow> socket \<Rightarrow> state \<times> string list \<times> verifier_call list" where
  "connectionGate cfg getAdminPassword compare getAdminId s sock =
     (let g = middlewareFunction cfg getAdminPassword compare getAdminId sock in
      if g_next g = Some NextOk
      then (case startSocketHandling_onConnection s (g_socket g) of (s', attached) \<Rightarrow> (s', attached, g_calls g))
      else (s, [], g_calls g))"

section \<open>Example sessions\<close>

text \<open>
  Concrete values for the instances below: a configuration, the sockets of two moderators
  (and of a reconnecting and of a new one), the registries after both have connected
  (\<open>s0\<close>), after alice has created debate 1 (\<open>s1\<close>), and after bob has then closed it
  (\<open>s2\<close>); a credential store that knows alice only, and three connection attempts.
\<close>

definition cfg0 :: config where
  "cfg0 = \<lparr>MAX_TITLE_LENGTH = 100, MAX_DESCRIPTION_LENGTH = 500, MAX_CLOSED_ANSWERS = 10,
     LOGIN_PASSWORD_INVALID = ''Invalid password''\<rparr>"

definition alice :: socket where
  "alice = \<lparr>sid = 1, username = JStr ''alice'', userid = JInt 1,
     query_username = JStr ''alice'', query_password = JNull\<rparr>"

definition bob :: socket where
  "bob = \<lparr>sid = 2, username = JStr ''bob'', userid = JInt 2,
     query_username = JStr ''bob'', query_password = JNull\<rparr>"

definition alice2 :: socket where
  "alice2 = \<lparr>sid = 3, username = JStr ''alice'', userid = JInt 1,
     query_username = JStr ''alice'', query_password = JNull\<rparr>"

definition carol :: socket where
  "carol = \<lparr>sid = 4, username = JStr ''carol'', userid = JInt 3,
     query_username = JStr ''carol'', query_password = JNull\<rparr>"

definition s0 :: state where
  "s0 = initializeUsers (initializeUsers \<lparr>activeDebates = [], users = []\<rparr> alice) bob"

definition s1 :: state where
  "s1 = st (newDebate cfg0 s0 alice
              (JObj [(''title'', JStr ''T''), (''description'', JStr ''D'')]) (JFun 0) 1
              (Resolved (JBool True)))"

definition s2 :: state where
  "s2 = st (closeDebate s1 bob (JInt 1) (JFun 0) (Resolved (JBool True)))"

definition getAdminPassword0 :: "jsval \<Rightarrow> jsval settled" where
  "getAdminPassword0 uname =
     (if uname = JStr ''alice'' then Resolved (JStr ''hash'') else Resolved JNull)"

definition compare0 :: "jsval \<Rightarrow> jsval \<Rightarrow> bcrypt_result" where
  "compare0 password adminHash =
     BcryptRes (JBool (password = JStr ''secret'' \<and> adminHash = JStr ''hash''))"

definition getAdminId0 :: "jsval \<Rightarrow> jsval settled" where
  "getAdminId0 uname = Resolved (JInt 1)"

definition nosecret :: socket where
  "nosecret = \<lparr>sid = 5, username = JUndefined, userid = JUndefined,
     query_username = JStr ''alice'', query_password = JUndefined\<rparr>"

definition mallory :: socket where
  "mallory = \<lparr>sid = 6, username = JUndefined, userid = JUndefined,
     query_username = JStr ''mallory'', query_password = JStr ''secret''\<rparr>"

definition wrongsecret :: socket where
  "wrongsecret = \<lparr>sid = 7, username = JUndefined, userid = JUndefined,
     query_username = JStr ''alice'', query_password = JStr ''guess''\<rparr>"

section \<open>Properties\<close>

lemmas typecheck_defs = isFunction_def isInteger_def isBoolean_def isString_def isArrayOf_def

lemma s0_eq:
  "s0 = \<lparr>activeDebates = [],
          users = [(JStr ''alice'', \<lparr>socket = alice, trackedDebates = []\<rparr>),
                   (JStr ''bob'', \<lparr>socket = bob, trackedDebates = []\<rparr>)]\<rparr>"
  by (simp add: s0_def initializeUsers_def alice_def bob_def)

lemma s1_eq:
  "s1 = \<lparr>activeDebates = [(1, \<lparr>debateID = 1, title = JStr ''T'', description = JStr ''D''\<rparr>)],
          users = [(JStr ''alice'', \<lparr>socket = alice, trackedDebates = [1]\<rparr>),
                   (JStr ''bob'', \<lparr>socket = bob, trackedDebates = []\<rparr>)]\<rparr>"
  by (simp add: s1_def s0_eq newDebate_def newDebate_sync_def newDebate_resume_def
      catchThrows_def typecheck_defs
      cfg0_def Let_def set_add_def alice_def bob_def)

lemma s2_eq:
  "s2 = \<lparr>activeDebates = [],
          users = [(JStr ''alice'', \<lparr>socket = alice, trackedDebates = [1]\<rparr>),
                   (JStr ''bob'', \<lparr>socket = bob, trackedDebates = []\<rparr>)]\<rparr>"
  by (simp add: s2_def s1_eq closeDebate_def closeDebate_sync_def closeDebate_resume_def
      typecheck_defs Let_def getActiveDebate_def deleteActiveDebate_def set_delete_def
      alice_def bob_def)

lemma getProp_Inr_other: "getProp v k = Inr x \<Longrightarrow> \<exists>y. getProp v k' = Inr y"
  by (cases v) auto

subsection \<open>banUser on a live debate\<close>

text \<open>
  Whenever the arguments of \<open>banUser\<close> are valid and the debate is live, the handler
  throws a ReferenceError before it reaches \<open>callback(true)\<close>: the log message reads
  \<open>suggestionId\<close>, which this handler does not bind.
\<close>

lemma banUser_valid_throws:
  assumes "isFunction callback"
    and "getProp banObj ''uuid'' = Inr uuid" "isString uuid None"
    and "getProp banObj ''debateId'' = Inr debateId" "isInteger debateId"
    and "getActiveDebate s debateId = Some dbt"
  shows "banUser s sock banObj callback = throw s ReferenceError"
  using assms by (simp add: banUser_def readIdentifier_def banUser_scope_def module_scope_def)

text \<open>
  C1, at a concrete request: alice bans a user from the live debate 1, with a string uuid, an
  integer debate id and a function as callback. The handler throws a ReferenceError and the
  callback is not invoked, where the claim has one invocation with \<open>true\<close>.
\<close>

theorem banUser_live_debate_throws:
  "banUser s1 alice (JObj [(''uuid'', JStr ''u''), (''debateId'', JInt 1)]) (JFun 0) =
     \<lparr>st = s1, replies = [], effects = [], thrown = Some ReferenceError\<rparr>"
  by (simp add: banUser_def readIdentifier_def banUser_scope_def module_scope_def typecheck_defs
      getActiveDebate_def s1_eq throw_def)

subsection \<open>Closing a debate\<close>

text \<open>
  When the caller of \<open>closeDebate\<close> has an entry, the handler reaches its \<open>await\<close>
  with the identifier gone from the registry and from the caller's set; the sets of the
  other users are as they were.
\<close>

lemma closeDebate_sync_untracks_caller:
  assumes cb: "isFunction callback"
    and dl: "getActiveDebate s aIdDiscussion = Some dbt"
    and us: "map_of (users s) (username sock) = Some u"
  shows "\<exists>out. closeDebate_sync s sock aIdDiscussion callback = Suspended out () \<and>
           getActiveDebate (st out) aIdDiscussion = None \<and>
           tracked (st out) (username sock) = Some (set_delete (debateID dbt) (trackedDebates u)) \<and>
           debateID dbt \<notin> set (set_delete (debateID dbt) (trackedDebates u)) \<and>
           (\<forall>name. name \<noteq> username sock \<longrightarrow> tracked (st out) name = tracked s name)"
proof -
  from dl obtain n where n: "aIdDiscussion = JInt n"
    by (cases aIdDiscussion) (simp_all add: getActiveDebate_def)
  show ?thesis
    using cb dl us unfolding n
    by (simp add: closeDebate_sync_def Let_def getActiveDebate_def deleteActiveDebate_def
        tracked_def update_conv' delete_conv' set_delete_def)
qed

text \<open>
  C2, at a concrete session: alice creates debate 1, so that it is in the registry and in
  her tracked set; bob, another authenticated moderator, closes it and is told \<open>true\<close>.
  Afterwards the identifier is gone from the registry and still in alice's tracked set,
  where the claim has it removed from the set of the moderator who tracks it.
\<close>

theorem closeDebate_by_other_moderator_leaves_tracked:
  "getActiveDebate s1 (JInt 1) \<noteq> None \<and> tracked s1 (JStr ''alice'') = Some [1] \<and>
   replies (closeDebate s1 bob (JInt 1) (JFun 0) (Resolved (JBool True))) = [JBool True] \<and>
   st (closeDebate s1 bob (JInt 1) (JFun 0) (Resolved (JBool True))) = s2 \<and>
   getActiveDebate s2 (JInt 1) = None \<and> tracked s2 (JStr ''alice'') = Some [1]"
  by (simp add: s1_eq s2_eq getActiveDebate_def tracked_def closeDebate_def closeDebate_sync_def
      closeDebate_resume_def typecheck_defs bob_def Let_def deleteActiveDebate_def set_delete_def)

subsection \<open>An identifier that is not in the registry\<close>

text \<open>
  When the callback is a function and the identifier supplied (as the argument of
  list-questions, list-suggestions and close-debate, as the field \<open>debateId\<close> of the
  payload of the other four commands) is not in the registry, each handler invokes the
  callback once with its sentinel (\<open>-1\<close> for list-questions, list-suggestions and
  new-question, \<open>false\<close> for the others), makes no collaborator call and leaves the
  registries as they were. Nothing is thrown, except by \<open>closeDebate\<close> for an identifier
  that has no string form.
\<close>

lemma unknown_debate_sentinel:
  assumes cb: "isFunction callback"
    and nf: "getActiveDebate s debateId = None"
    and pl: "getProp payload ''debateId'' = Inr debateId"
  shows "getDebateQuestions s sock debateId callback formatted = reply s (JInt (- 1)) \<and>
         getDebateSuggestions s sock debateId callback approved = reply s (JInt (- 1)) \<and>
         closeDebate s sock debateId callback update =
           (if toStringThrows debateId
            then \<lparr>st = s, replies = [JBool False], effects = [], thrown = Some TypeError\<rparr>
            else reply s (JBool False)) \<and>
         newQuestion cfg s sock payload callback qid sent = reply s (JInt (- 1)) \<and>
         banUser s sock payload callback = reply s (JBool False) \<and>
         approveQuestion s sock payload callback res = reply s (JBool False) \<and>
         rejectQuestion s sock payload callback res = reply s (JBool False)"
proof -
  have q: "getDebateQuestions s sock debateId callback formatted = reply s (JInt (- 1))"
    using cb nf by (simp add: getDebateQuestions_def)
  have g: "getDebateSuggestions s sock debateId callback approved = reply s (JInt (- 1))"
    using cb nf by (simp add: getDebateSuggestions_def)
  have c: "closeDebate s sock debateId callback update =
           (if toStringThrows debateId
            then \<lparr>st = s, replies = [JBool False], effects = [], thrown = Some TypeError\<rparr>
            else reply s (JBool False))"
    using cb nf by (simp add: closeDebate_def closeDebate_sync_def)
  obtain t where t: "getProp payload ''title'' = Inr t"
    using getProp_Inr_other [OF pl] by blast
  obtain a where a: "getProp payload ''answers'' = Inr a"
    using getProp_Inr_other [OF pl] by blast
  obtain b where b: "getProp payload ''isOpenQuestion'' = Inr b"
    using getProp_Inr_other [OF pl] by blast
  obtain u where u: "getProp payload ''uuid'' = Inr u"
    using getProp_Inr_other [OF pl] by blast
  obtain i where i: "getProp payload ''suggestionId'' = Inr i"
    using getProp_Inr_other [OF pl] by blast
  have n: "newQuestion cfg s sock payload callback qid sent = reply s (JInt (- 1))"
    using cb nf pl t a b by (simp add: newQuestion_def newQuestion_sync_def Let_def)
  have bn: "banUser s sock payload callback = reply s (JBool False)"
    using cb nf pl u by (simp add: banUser_def)
  have ap: "approveQuestion s sock payload callback res = reply s (JBool False)"
    using cb nf pl i by (simp add: approveQuestion_def)
  have rj: "rejectQuestion s sock payload callback res = reply s (JBool False)"
    using cb nf pl i by (simp add: rejectQuestion_def)
  from q g c n bn ap rj show ?thesis by simp
qed

text \<open>
  C3, at a concrete request: alice calls close-debate with the object \<open>{toString: null}\<close>
  as identifier and a function as callback. The identifier is not in the registry and the
  callback is invoked with \<open>false\<close>; then the handler throws a TypeError while it builds
  its log message, where the claim has it throw nothing. With the identifier 9, which is
  not in the registry either, it replies \<open>false\<close> and throws nothing.
\<close>

theorem closeDebate_unknown_object_id_throws:
  "getActiveDebate s1 (JObj [(''toString'', JNull)]) = None \<and>
   closeDebate s1 alice (JObj [(''toString'', JNull)]) (JFun 0) (Resolved (JBool True)) =
     \<lparr>st = s1, replies = [JBool False], effects = [], thrown = Some TypeError\<rparr> \<and>
   closeDebate s1 alice (JInt 9) (JFun 0) (Resolved (JBool True)) = reply s1 (JBool False)"
  by (simp add: closeDebate_def closeDebate_sync_def getActiveDebate_def isFunction_def s1_eq)

subsection \<open>Requests that fail validation\<close>

text \<open>
  A payload whose fields can be read and fail the checks of the command gets the sentinel
  of the command; nothing is thrown, no collaborator is called and the registries are as
  they were.
\<close>

lemma invalid_arguments_sentinel:
  assumes cb: "isFunction callback"
  shows "\<not> isInteger debateId \<Longrightarrow>
           getDebateQuestions s sock debateId callback formatted = reply s (JInt (- 1))"
    and "\<not> isInteger debateId \<Longrightarrow>
           getDebateSuggestions s sock debateId callback approved = reply s (JInt (- 1))"
    and "getProp obj ''title'' = Inr t \<Longrightarrow> getProp obj ''description'' = Inr d \<Longrightarrow>
         \<not> (isString t (Some (MAX_TITLE_LENGTH cfg)) \<and>
            isString d (Some (MAX_DESCRIPTION_LENGTH cfg))) \<Longrightarrow>
           newDebate cfg s sock obj callback newId saved = reply s (JInt (- 1))"
    and "getProp obj ''uuid'' = Inr uuid \<Longrightarrow> getProp obj ''debateId'' = Inr debateId \<Longrightarrow>
         \<not> (isString uuid None \<and> isInteger debateId) \<Longrightarrow>
           banUser s sock obj callback = reply s (JBool False)"
    and "getProp obj ''suggestionId'' = Inr suggestionId \<Longrightarrow>
         getProp obj ''debateId'' = Inr debateId \<Longrightarrow>
         \<not> (isInteger suggestionId \<and> isInteger debateId) \<Longrightarrow>
           approveQuestion s sock obj callback res = reply s (JBool False)"
    and "getProp obj ''suggestionId'' = Inr suggestionId \<Longrightarrow>
         getProp obj ''debateId'' = Inr debateId \<Longrightarrow>
         \<not> (isInteger suggestionId \<and> isInteger debateId) \<Longrightarrow>
           rejectQuestion s sock obj callback res = reply s (JBool False)"
  using cb
  by (simp_all add: getDebateQuestions_def getDebateSuggestions_def newDebate_def
      newDebate_sync_def banUser_def approveQuestion_def rejectQuestion_def)

lemma invalid_newQuestion_sentinel:
  assumes cb: "isFunction callback"
    and rd: "getProp obj ''debateId'' = Inr debateId" "getProp obj ''title'' = Inr t"
            "getProp obj ''answers'' = Inr answers0" "getProp obj ''isOpenQuestion'' = Inr b"
    and bad: "\<not> (isInteger debateId \<and> isString t None \<and>
                 isArrayOf (if b = JBool True then JArr [] else answers0)
                   (\<lambda>v. isString v None) (Some (MAX_CLOSED_ANSWERS cfg)))"
  shows "newQuestion cfg s sock obj callback qid sent = reply s (JInt (- 1))"
proof (cases "b = JBool True")
  case True
  with cb rd bad show ?thesis
    by (simp add: newQuestion_def newQuestion_sync_def Let_def isBoolean_def)
next
  case False
  with cb rd bad show ?thesis
    by (auto simp add: newQuestion_def newQuestion_sync_def Let_def)
qed

text \<open>
  C4, at a concrete request: the payload \<open>null\<close> fails the validation of every command
  that takes a payload object. Each of the five handlers throws a TypeError when it reads
  the first field of the payload, and the callback is not invoked, where the claim has it
  invoked with the sentinel. The registries are as they were.
\<close>

theorem null_payload_throws:
  "newDebate cfg0 s0 alice JNull (JFun 0) 1 (Resolved (JBool True)) = throw s0 TypeError \<and>
   newQuestion cfg0 s0 alice JNull (JFun 0) (JInt 1) (Resolved JUndefined) = throw s0 TypeError \<and>
   banUser s0 alice JNull (JFun 0) = throw s0 TypeError \<and>
   approveQuestion s0 alice JNull (JFun 0) (JBool True) = throw s0 TypeError \<and>
   rejectQuestion s0 alice JNull (JFun 0) (JBool True) = throw s0 TypeError \<and>
   replies (throw s0 TypeError) = [] \<and> thrown (throw s0 TypeError) = Some TypeError"
  by (simp add: newDebate_def newDebate_sync_def newQuestion_def newQuestion_sync_def banUser_def
      approveQuestion_def rejectQuestion_def isFunction_def throw_def)

subsection \<open>Open questions\<close>

text \<open>
  C5: for a new-question request with a function as callback, \<open>isOpenQuestion\<close> equal to
  \<open>true\<close>, an integer \<open>debateId\<close> of a live debate and a string title, the question
  is constructed with the empty answer list, whatever the field \<open>answers\<close> holds (an array
  of strings or not): the handler reaches its \<open>await\<close> having called the constructor with
  the title, \<open>[]\<close> and \<open>true\<close>, and the whole run makes no other constructor call.
\<close>

theorem open_question_empty_answers:
  assumes cb: "isFunction callback"
    and op: "getProp newQuestionObj ''isOpenQuestion'' = Inr (JBool True)"
    and an: "getProp newQuestionObj ''answers'' = Inr answers0"
    and di: "getProp newQuestionObj ''debateId'' = Inr debateId" "isInteger debateId"
    and dl: "getActiveDebate s debateId = Some dbt"
    and ti: "getProp newQuestionObj ''title'' = Inr t" "isString t None"
  shows "newQuestion_sync cfg s sock newQuestionObj callback qid =
           Suspended \<lparr>st = s, replies = [],
             effects = [NewQuestion (debateID dbt) t (JArr []) (JBool True),
                        SendNewQuestion (debateID dbt) qid],
             thrown = None\<rparr> () \<and>
         effects (newQuestion cfg s sock newQuestionObj callback qid sent) =
           [NewQuestion (debateID dbt) t (JArr []) (JBool True), SendNewQuestion (debateID dbt) qid]"
proof -
  have sync: "newQuestion_sync cfg s sock newQuestionObj callback qid =
           Suspended \<lparr>st = s, replies = [],
             effects = [NewQuestion (debateID dbt) t (JArr []) (JBool True),
                        SendNewQuestion (debateID dbt) qid],
             thrown = None\<rparr> ()"
    using cb op an di dl ti
    by (simp add: newQuestion_sync_def Let_def isBoolean_def isArrayOf_def)
  then show ?thesis
    by (cases sent) (simp_all add: newQuestion_def newQuestion_resume_def)
qed

theorem open_question_empty_answers_witness:
  "newQuestion_sync cfg0 s1 alice
     (JObj [(''debateId'', JInt 1), (''title'', JStr ''Q''), (''answers'', JInt 5),
            (''isOpenQuestion'', JBool True)]) (JFun 0) (JInt 7) =
     Suspended \<lparr>st = s1, replies = [],
       effects = [NewQuestion 1 (JStr ''Q'') (JArr []) (JBool True), SendNewQuestion 1 (JInt 7)],
       thrown = None\<rparr> () \<and>
   effects (newQuestion cfg0 s1 alice
     (JObj [(''debateId'', JInt 1), (''title'', JStr ''Q''), (''answers'', JInt 5),
            (''isOpenQuestion'', JBool True)]) (JFun 0) (JInt 7) (Resolved JUndefined)) =
     [NewQuestion 1 (JStr ''Q'') (JArr []) (JBool True), SendNewQuestion 1 (JInt 7)]"
proof -
  let ?obj = "JObj [(''debateId'', JInt 1), (''title'', JStr ''Q''), (''answers'', JInt 5),
            (''isOpenQuestion'', JBool True)]"
  have cb: "isFunction (JFun 0)" by (simp add: isFunction_def)
  have op: "getProp ?obj ''isOpenQuestion'' = Inr (JBool True)" by simp
  have an: "getProp ?obj ''answers'' = Inr (JInt 5)" by simp
  have di: "getProp ?obj ''debateId'' = Inr (JInt 1)" by simp
  have ii: "isInteger (JInt 1)" by (simp add: isInteger_def)
  have dl: "getActiveDebate s1 (JInt 1) =
      Some \<lparr>debateID = 1, title = JStr ''T'', description = JStr ''D''\<rparr>"
    by (simp add: getActiveDebate_def s1_eq)
  have ti: "getProp ?obj ''title'' = Inr (JStr ''Q'')" by simp
  have ts: "isString (JStr ''Q'') None" by (simp add: isString_def)
  show ?thesis
    using open_question_empty_answers [OF cb op an di ii dl ti ts, of cfg0 alice "JInt 7" "Resolved JUndefined"]
    by simp
qed

subsection \<open>Reconnecting\<close>

text \<open>
  C6: initializing a user that has an entry replaces the socket of the entry and nothing
  else, so the tracked set is the one from before; initializing a user without an entry
  creates one with the empty tracked set; initializing again under the same username
  leaves the tracked set as it is, and initializing twice with the same socket is the same
  as once. The entries of the other users and the registry are untouched.
\<close>

theorem initializeUsers_keeps_tracked:
  "(map_of (users s) (username sock) = Some u \<longrightarrow>
      map_of (users (initializeUsers s sock)) (username sock) = Some (u\<lparr>socket := sock\<rparr>) \<and>
      tracked (initializeUsers s sock) (username sock) = tracked s (username sock)) \<and>
   (map_of (users s) (username sock) = None \<longrightarrow>
      map_of (users (initializeUsers s sock)) (username sock) =
        Some \<lparr>socket = sock, trackedDebates = []\<rparr>) \<and>
   (username sock' = username sock \<longrightarrow>
      tracked (initializeUsers (initializeUsers s sock) sock') (username sock) =
        tracked (initializeUsers s sock) (username sock)) \<and>
   initializeUsers (initializeUsers s sock) sock = initializeUsers s sock \<and>
   (name \<noteq> username sock \<longrightarrow>
      map_of (users (initializeUsers s sock)) name = map_of (users s) name) \<and>
   activeDebates (initializeUsers s sock) = activeDebates s"
  by (cases "map_of (users s) (username sock)")
     (simp_all add: initializeUsers_def tracked_def update_conv' AList.update_last)

theorem initializeUsers_keeps_tracked_witness:
  "map_of (users (initializeUsers s1 alice2)) (JStr ''alice'') =
      Some \<lparr>socket = alice2, trackedDebates = [1]\<rparr> \<and>
   tracked (initializeUsers s1 alice2) (JStr ''alice'') = Some [1] \<and>
   map_of (users (initializeUsers s1 carol)) (JStr ''carol'') =
      Some \<lparr>socket = carol, trackedDebates = []\<rparr> \<and>
   tracked (initializeUsers (initializeUsers s1 alice2) alice) (JStr ''alice'') = Some [1] \<and>
   initializeUsers (initializeUsers s1 alice2) alice2 = initializeUsers s1 alice2 \<and>
   map_of (users (initializeUsers s1 alice2)) (JStr ''bob'') = map_of (users s1) (JStr ''bob'')"
proof -
  have k: "map_of (users s1) (username alice2) = Some \<lparr>socket = alice, trackedDebates = [1]\<rparr>"
    by (simp add: s1_eq alice2_def)
  have n: "map_of (users s1) (username carol) = None"
    by (simp add: s1_eq carol_def)
  have e: "username alice = username alice2" by (simp add: alice_def alice2_def)
  have b: "JStr ''bob'' \<noteq> username alice2" by (simp add: alice2_def)
  have t1: "tracked s1 (JStr ''alice'') = Some [1]" by (simp add: tracked_def s1_eq)
  have ua: "username alice2 = JStr ''alice''" by (simp add: alice2_def)
  have uc: "username carol = JStr ''carol''" by (simp add: carol_def)
  show ?thesis
    using initializeUsers_keeps_tracked [of s1 alice2 "\<lparr>socket = alice, trackedDebates = [1]\<rparr>" alice "JStr ''bob''"]
      initializeUsers_keeps_tracked [of s1 carol "\<lparr>socket = carol, trackedDebates = []\<rparr>" carol "JStr ''bob''"]
      k n e b t1
    by (simp add: ua uc)
qed

subsection \<open>Creating a debate\<close>

text \<open>
  When \<open>saveDiscussion\<close> is rejected with a value that has no string form, the handler
  ends with a TypeError and without a reply; the registries stay as they were at the
  \<open>await\<close>.
\<close>

lemma newDebate_unconvertible_rejection_throws:
  assumes cb: "isFunction callback"
    and ti: "getProp newDebateObj ''title'' = Inr t" "isString t (Some (MAX_TITLE_LENGTH cfg))"
    and de: "getProp newDebateObj ''description'' = Inr d"
            "isString d (Some (MAX_DESCRIPTION_LENGTH cfg))"
    and us: "map_of (users s) (username sock) = Some u"
    and nc: "toStringThrows res"
  shows "replies (newDebate cfg s sock newDebateObj callback newId (RejectedWith res)) = [] \<and>
         thrown (newDebate cfg s sock newDebateObj callback newId (RejectedWith res)) =
           Some TypeError"
  using cb ti de us nc
  by (simp add: newDebate_def newDebate_sync_def newDebate_resume_def catchThrows_def Let_def)

text \<open>
  C7: for a create-debate request with a function as callback and a title and a description
  that are strings within their maximum lengths, from a caller that has an entry, the
  handler reaches the \<open>await\<close> of the persistence call with the new debate in the
  registry and its identifier in the caller's tracked set, and without having replied.
  Whatever the persistence call does, the registries stay the ones of the \<open>await\<close>.
  When the persistence call is fulfilled, with \<open>true\<close> or with anything else, and when
  it is rejected with a value that has a string form (the handler logs that value), the
  callback receives the new identifier once and nothing is thrown.
\<close>

theorem newDebate_registers_before_persisting:
  assumes cb: "isFunction callback"
    and ti: "getProp newDebateObj ''title'' = Inr t" "isString t (Some (MAX_TITLE_LENGTH cfg))"
    and de: "getProp newDebateObj ''description'' = Inr d"
            "isString d (Some (MAX_DESCRIPTION_LENGTH cfg))"
    and us: "map_of (users s) (username sock) = Some u"
  shows "\<exists>out. newDebate_sync cfg s sock newDebateObj callback newId =
             Suspended out \<lparr>debateID = newId, title = t, description = d\<rparr> \<and>
           getActiveDebate (st out) (JInt newId) =
             Some \<lparr>debateID = newId, title = t, description = d\<rparr> \<and>
           tracked (st out) (username sock) = Some (set_add newId (trackedDebates u)) \<and>
           newId \<in> set (set_add newId (trackedDebates u)) \<and>
           replies out = [] \<and>
           effects out = [SaveDiscussion \<lparr>debateID = newId, title = t, description = d\<rparr>] \<and>
           (\<forall>saved. st (newDebate cfg s sock newDebateObj callback newId saved) = st out) \<and>
           (\<forall>res. replies (newDebate cfg s sock newDebateObj callback newId (Resolved res)) =
                     [JInt newId] \<and>
                  thrown (newDebate cfg s sock newDebateObj callback newId (Resolved res)) = None) \<and>
           (\<forall>res. \<not> toStringThrows res \<longrightarrow>
                  replies (newDebate cfg s sock newDebateObj callback newId (RejectedWith res)) =
                     [JInt newId] \<and>
                  thrown (newDebate cfg s sock newDebateObj callback newId (RejectedWith res)) =
                     None)"
  using cb ti de us
  by (simp add: newDebate_def newDebate_sync_def newDebate_resume_def catchThrows_def Let_def
      getActiveDebate_def tracked_def update_conv' set_add_def)

theorem newDebate_registers_before_persisting_witness:
  "\<exists>out. newDebate_sync cfg0 s0 alice (JObj [(''title'', JStr ''T''), (''description'', JStr ''D'')])
             (JFun 0) 1 =
             Suspended out \<lparr>debateID = 1, title = JStr ''T'', description = JStr ''D''\<rparr> \<and>
           getActiveDebate (st out) (JInt 1) =
             Some \<lparr>debateID = 1, title = JStr ''T'', description = JStr ''D''\<rparr> \<and>
           tracked (st out) (JStr ''alice'') = Some [1] \<and>
           replies out = [] \<and>
           effects out = [SaveDiscussion \<lparr>debateID = 1, title = JStr ''T'', description = JStr ''D''\<rparr>] \<and>
           replies (newDebate cfg0 s0 alice (JObj [(''title'', JStr ''T''), (''description'', JStr ''D'')])
             (JFun 0) 1 (Resolved (JBool False))) = [JInt 1] \<and>
           st (newDebate cfg0 s0 alice (JObj [(''title'', JStr ''T''), (''description'', JStr ''D'')])
             (JFun 0) 1 (Resolved (JBool False))) = st out \<and>
           replies (newDebate cfg0 s0 alice (JObj [(''title'', JStr ''T''), (''description'', JStr ''D'')])
             (JFun 0) 1 (RejectedWith (JStr ''db down''))) = [JInt 1] \<and>
           thrown (newDebate cfg0 s0 alice (JObj [(''title'', JStr ''T''), (''description'', JStr ''D'')])
             (JFun 0) 1 (RejectedWith (JStr ''db down''))) = None \<and>
           st (newDebate cfg0 s0 alice (JObj [(''title'', JStr ''T''), (''description'', JStr ''D'')])
             (JFun 0) 1 (RejectedWith (JStr ''db down''))) = st out"
proof -
  let ?obj = "JObj [(''title'', JStr ''T''), (''description'', JStr ''D'')]"
  have cb: "isFunction (JFun 0)" by (simp add: isFunction_def)
  have ti: "getProp ?obj ''title'' = Inr (JStr ''T'')" by simp
  have ts: "isString (JStr ''T'') (Some (MAX_TITLE_LENGTH cfg0))" by (simp add: isString_def cfg0_def)
  have de: "getProp ?obj ''description'' = Inr (JStr ''D'')" by simp
  have ds: "isString (JStr ''D'') (Some (MAX_DESCRIPTION_LENGTH cfg0))"
    by (simp add: isString_def cfg0_def)
  have us: "map_of (users s0) (username alice) = Some \<lparr>socket = alice, trackedDebates = []\<rparr>"
    by (simp add: s0_eq) (simp add: alice_def)
  have ua: "username alice = JStr ''alice''" by (simp add: alice_def)
  have cv: "\<not> toStringThrows (JStr ''db down'')" by simp
  from newDebate_registers_before_persisting [OF cb ti ts de ds us, of 1]
  obtain out where o: "newDebate_sync cfg0 s0 alice ?obj (JFun 0) 1 =
             Suspended out \<lparr>debateID = 1, title = JStr ''T'', description = JStr ''D''\<rparr>"
      "getActiveDebate (st out) (JInt 1) =
             Some \<lparr>debateID = 1, title = JStr ''T'', description = JStr ''D''\<rparr>"
      "tracked (st out) (username alice) =
         Some (set_add 1 (trackedDebates \<lparr>socket = alice, trackedDebates = []\<rparr>))"
      "replies out = []"
      "effects out = [SaveDiscussion \<lparr>debateID = 1, title = JStr ''T'', description = JStr ''D''\<rparr>]"
      "\<forall>saved. st (newDebate cfg0 s0 alice ?obj (JFun 0) 1 saved) = st out"
      "\<forall>res. replies (newDebate cfg0 s0 alice ?obj (JFun 0) 1 (Resolved res)) = [JInt 1] \<and>
             thrown (newDebate cfg0 s0 alice ?obj (JFun 0) 1 (Resolved res)) = None"
      "\<forall>res. \<not> toStringThrows res \<longrightarrow>
             replies (newDebate cfg0 s0 alice ?obj (JFun 0) 1 (RejectedWith res)) = [JInt 1] \<and>
             thrown (newDebate cfg0 s0 alice ?obj (JFun 0) 1 (RejectedWith res)) = None"
    by blast
  from o(3) have t: "tracked (st out) (JStr ''alice'') = Some [1]"
    by (simp add: ua set_add_def)
  from o(8) cv have r: "replies (newDebate cfg0 s0 alice ?obj (JFun 0) 1
        (RejectedWith (JStr ''db down''))) = [JInt 1] \<and>
      thrown (newDebate cfg0 s0 alice ?obj (JFun 0) 1 (RejectedWith (JStr ''db down''))) = None"
    by blast
  from o(1,2,4,5,6,7) t r show ?thesis by blast
qed

subsection \<open>The reply of closeDebate\<close>

text \<open>
  When \<open>saveEndDiscussion\<close> is fulfilled with a value that has no string form, the
  handler throws a TypeError while it logs the value, before it reaches the callback.
\<close>

lemma closeDebate_unconvertible_result_throws:
  assumes cb: "isFunction callback"
    and dl: "getActiveDebate s aIdDiscussion = Some dbt"
    and us: "map_of (users s) (username sock) = Some u"
    and nc: "toStringThrows update"
  shows "replies (closeDebate s sock aIdDiscussion callback (Resolved update)) = [] \<and>
         thrown (closeDebate s sock aIdDiscussion callback (Resolved update)) = Some TypeError"
  using cb dl us nc
  by (simp add: closeDebate_def closeDebate_sync_def closeDebate_resume_def Let_def)

text \<open>
  C8: for a close-debate request with a function as callback, on an identifier that is in
  the registry, from a caller that has an entry, when the persistence call
  \<open>saveEndDiscussion\<close> is fulfilled with a value that has a string form (the handler
  logs the value first), the one value passed to the callback is that value, whatever it
  is, and nothing is thrown.
\<close>

theorem closeDebate_forwards_persistence_result:
  assumes cb: "isFunction callback"
    and dl: "getActiveDebate s aIdDiscussion = Some dbt"
    and us: "map_of (users s) (username sock) = Some u"
    and cv: "\<not> toStringThrows update"
  shows "replies (closeDebate s sock aIdDiscussion callback (Resolved update)) = [update] \<and>
         thrown (closeDebate s sock aIdDiscussion callback (Resolved update)) = None \<and>
         effects (closeDebate s sock aIdDiscussion callback (Resolved update)) =
           [SaveEndDiscussion aIdDiscussion]"
  using cb dl us cv
  by (simp add: closeDebate_def closeDebate_sync_def closeDebate_resume_def Let_def)

theorem closeDebate_forwards_persistence_result_witness:
  "replies (closeDebate s1 bob (JInt 1) (JFun 0) (Resolved (JStr ''stored''))) = [JStr ''stored''] \<and>
   thrown (closeDebate s1 bob (JInt 1) (JFun 0) (Resolved (JStr ''stored''))) = None \<and>
   effects (closeDebate s1 bob (JInt 1) (JFun 0) (Resolved (JStr ''stored''))) =
     [SaveEndDiscussion (JInt 1)]"
proof -
  have cb: "isFunction (JFun 0)" by (simp add: isFunction_def)
  have dl: "getActiveDebate s1 (JInt 1) =
      Some \<lparr>debateID = 1, title = JStr ''T'', description = JStr ''D''\<rparr>"
    by (simp add: getActiveDebate_def s1_eq)
  have us: "map_of (users s1) (username bob) = Some \<lparr>socket = bob, trackedDebates = []\<rparr>"
    by (simp add: s1_eq) (simp add: bob_def)
  have cv: "\<not> toStringThrows (JStr ''stored'')" by simp
  show ?thesis by (rule closeDebate_forwards_persistence_result [OF cb dl us cv])
qed

subsection \<open>The connection gate\<close>

text \<open>
  C9: a connection whose handshake has no secret is failed by the middleware with no
  verifier call at all. A connection that fails authentication, because the secret is
  missing, because no hash is stored for the username, or because the comparison does not
  give \<open>true\<close>, leaves the registries as they were (no session entry is created) and has
  no event handler attached; the same holds whenever the middleware does not call
  \<open>next\<close> without an error.
\<close>

theorem gate_rejects_without_session:
  "(\<not> truthy (query_password sock) \<longrightarrow>
      middlewareFunction cfg getAdminPassword compare getAdminId sock =
        \<lparr>g_socket = sock, g_calls = [], g_next = Some (NextError ''No password specified''),
         g_thrown = None\<rparr> \<and>
      connectionGate cfg getAdminPassword compare getAdminId s sock = (s, [], [])) \<and>
   (truthy (query_password sock) \<and> getAdminPassword (query_username sock) = Resolved adminHash \<and>
    \<not> truthy adminHash \<longrightarrow>
      connectionGate cfg getAdminPassword compare getAdminId s sock =
        (s, [], [GetAdminPassword (query_username sock)])) \<and>
   (truthy (query_password sock) \<and> getAdminPassword (query_username sock) = Resolved adminHash \<and>
    truthy adminHash \<and>
    (case compare (query_password sock) adminHash of
       BcryptErr err \<Rightarrow> True
     | BcryptRes r \<Rightarrow> r \<noteq> JBool True) \<longrightarrow>
      connectionGate cfg getAdminPassword compare getAdminId s sock =
        (s, [], [GetAdminPassword (query_username sock),
                 BcryptCompare (query_password sock) adminHash])) \<and>
   (g_next (middlewareFunction cfg getAdminPassword compare getAdminId sock) \<noteq> Some NextOk \<longrightarrow>
      fst (connectionGate cfg getAdminPassword compare getAdminId s sock) = s \<and>
      fst (snd (connectionGate cfg getAdminPassword compare getAdminId s sock)) = [])"
  by (auto simp add: connectionGate_def middlewareFunction_def Let_def split: bcrypt_result.splits)

theorem gate_rejects_without_session_witness:
  "connectionGate cfg0 getAdminPassword0 compare0 getAdminId0 s0 nosecret = (s0, [], []) \<and>
   connectionGate cfg0 getAdminPassword0 compare0 getAdminId0 s0 mallory =
     (s0, [], [GetAdminPassword (JStr ''mallory'')]) \<and>
   connectionGate cfg0 getAdminPassword0 compare0 getAdminId0 s0 wrongsecret =
     (s0, [], [GetAdminPassword (JStr ''alice''), BcryptCompare (JStr ''guess'') (JStr ''hash'')])"
proof -
  have a: "\<not> truthy (query_password nosecret)" by (simp add: nosecret_def)
  have b: "truthy (query_password mallory) \<and>
      getAdminPassword0 (query_username mallory) = Resolved JNull \<and> \<not> truthy JNull"
    by (simp add: mallory_def getAdminPassword0_def)
  have c: "truthy (query_password wrongsecret) \<and>
      getAdminPassword0 (query_username wrongsecret) = Resolved (JStr ''hash'') \<and>
      truthy (JStr ''hash'') \<and>
      (case compare0 (query_password wrongsecret) (JStr ''hash'') of
         BcryptErr err \<Rightarrow> True
       | BcryptRes r \<Rightarrow> r \<noteq> JBool True)"
    by (simp add: wrongsecret_def getAdminPassword0_def compare0_def)
  have qm: "query_username mallory = JStr ''mallory''" by (simp add: mallory_def)
  have qw: "query_username wrongsecret = JStr ''alice'' \<and> query_password wrongsecret = JStr ''guess''"
    by (simp add: wrongsecret_def)
  show ?thesis
    using gate_rejects_without_session [of nosecret cfg0 getAdminPassword0 compare0 getAdminId0 s0 JNull]
      gate_rejects_without_session [of mallory cfg0 getAdminPassword0 compare0 getAdminId0 s0 JNull]
      gate_rejects_without_session [of wrongsecret cfg0 getAdminPassword0 compare0 getAdminId0 s0 "JStr ''hash''"]
      a b c qm qw
    by simp
qed

subsection \<open>getDebates with a stale tracked identifier\<close>

lemma trackedSummaries_missing:
  "debateId \<in> set ids \<Longrightarrow> map_of reg debateId = None \<Longrightarrow>
     trackedSummaries reg ids debates = Inl TypeError"
proof (induction ids arbitrary: debates)
  case Nil
  then show ?case by simp
next
  case (Cons i ids)
  show ?case
  proof (cases "map_of reg i")
    case None
    then show ?thesis by simp
  next
    case (Some dbt)
    with Cons.prems have "debateId \<in> set ids" by auto
    with Cons.IH Cons.prems(2) Some show ?thesis by simp
  qed
qed

text \<open>
  C10: when the callback is a function and some identifier in the caller's tracked set is not
  in the registry, \<open>getDebates\<close> throws a TypeError while it reads the missing debate
  and never invokes the callback; so it replies only if every tracked identifier is in the
  registry. The instance below is the state reached when alice creates debate 1 and bob
  closes it.
\<close>

theorem getDebates_throws_on_stale_tracked_id:
  assumes cb: "isFunction callback"
    and us: "map_of (users s) (username sock) = Some u"
    and tr: "debateId \<in> set (trackedDebates u)"
    and ms: "map_of (activeDebates s) debateId = None"
  shows "getDebates s sock callback discussions = throw s TypeError \<and>
         replies (getDebates s sock callback discussions) = [] \<and>
         thrown (getDebates s sock callback discussions) = Some TypeError"
  using cb us trackedSummaries_missing [OF tr ms]
  by (simp add: getDebates_def getDebates_sync_def throw_def)

theorem getDebates_throws_on_stale_tracked_id_witness:
  "s2 = st (closeDebate (st (newDebate cfg0 s0 alice
            (JObj [(''title'', JStr ''T''), (''description'', JStr ''D'')]) (JFun 0) 1
            (Resolved (JBool True)))) bob (JInt 1) (JFun 0) (Resolved (JBool True))) \<and>
   getDebates s2 alice (JFun 0) (Resolved []) = throw s2 TypeError \<and>
   replies (getDebates s2 alice (JFun 0) (Resolved [])) = [] \<and>
   thrown (getDebates s2 alice (JFun 0) (Resolved [])) = Some TypeError"
proof -
  have cb: "isFunction (JFun 0)" by (simp add: isFunction_def)
  have us: "map_of (users s2) (username alice) = Some \<lparr>socket = alice, trackedDebates = [1]\<rparr>"
    by (simp add: s2_eq) (simp add: alice_def)
  have tr: "(1::int) \<in> set (trackedDebates \<lparr>socket = alice, trackedDebates = [1]\<rparr>)" by simp
  have ms: "map_of (activeDebates s2) 1 = None" by (simp add: s2_eq)
  have sc: "s2 = st (closeDebate (st (newDebate cfg0 s0 alice
            (JObj [(''title'', JStr ''T''), (''description'', JStr ''D'')]) (JFun 0) 1
            (Resolved (JBool True)))) bob (JInt 1) (JFun 0) (Resolved (JBool True)))"
    by (simp add: s2_def s1_def)
  show ?thesis
    using getDebates_throws_on_stale_tracked_id [OF cb us tr ms, of "Resolved []"] sc
    by blast
qed

end
